theory Spec2Isabelle
  imports Complex_Main
begin

section \<open>Fan control for the Raspberry Pi: a shallow embedding of fan\_control.py\<close>

text \<open>
  The script reads the CPU temperature, derives a PWM duty cycle from it and writes the
  duty cycle to a GPIO pin, once per \<open>wait_time\<close> seconds, until it is interrupted or
  an I/O call fails.

  Modelling decisions.
  \<^item> Python's unbounded \<open>int\<close> is \<open>int\<close>. Python's \<open>float\<close> is idealised as
    \<open>real\<close>: comparisons and the ramp formula are exact here, rounding of binary
    floating point is not modelled.
  \<^item> The module-level variable \<open>REMAIN_ACTIVATED\<close> and everything the script does to the
    outside world (lgpio calls, log records, sleeping) live in an explicit \<open>state\<close>
    that every function takes and returns; the outside world is observed as a
    chronological \<open>trace\<close> of calls.
  \<^item> The module-level namespace \<open>args\<close> is passed as a parameter.
  \<^item> An exception is a value: functions return \<open>py_exception + 'a\<close> together with the
    state reached when the exception left the function.
  \<^item> What the outside world answers is an input of the model: the content of the thermal
    zone file (or \<open>None\<close> when reading it raises \<open>IOError\<close>), whether an lgpio call
    succeeds (or raises \<open>lgpio.error\<close>), whether \<open>time.sleep\<close> is interrupted by
    \<open>KeyboardInterrupt\<close>. These are the failures the source names in its docstrings and
    handlers.
\<close>

subsection \<open>Exceptions\<close>

datatype py_exception =
    IOError
  | LgpioError
  | ZeroDivisionError
  | ValueError
  | UnboundLocalError
  | KeyboardInterrupt
  | SystemExit int

text \<open>\<open>except Exception\<close> catches everything but the two \<open>BaseException\<close>s.\<close>

fun is_Exception :: "py_exception \<Rightarrow> bool" where
  "is_Exception KeyboardInterrupt = False"
| "is_Exception (SystemExit c) = False"
| "is_Exception IOError = True"
| "is_Exception LgpioError = True"
| "is_Exception ZeroDivisionError = True"
| "is_Exception ValueError = True"
| "is_Exception UnboundLocalError = True"

subsection \<open>Constants and configuration\<close>

definition DEFAULT_CONFIG_FILE :: string where "DEFAULT_CONFIG_FILE = ''/etc/fan_control.conf''"
definition DEFAULT_PWM_GPIO_NR :: int where "DEFAULT_PWM_GPIO_NR = 14"
definition DEFAULT_WAIT_TIME :: int where "DEFAULT_WAIT_TIME = 10"
definition DEFAULT_PWM_FREQ :: int where "DEFAULT_PWM_FREQ = 10000"
definition DEFAULT_MIN_TEMP :: int where "DEFAULT_MIN_TEMP = 55"
definition DEFAULT_MIN_TEMP_COLLING :: int where "DEFAULT_MIN_TEMP_COLLING = 50"
definition DEFAULT_MAX_TEMP :: int where "DEFAULT_MAX_TEMP = 75"
definition DEFAULT_FAN_LOW :: int where "DEFAULT_FAN_LOW = 50"
definition DEFAULT_FAN_HIGH :: int where "DEFAULT_FAN_HIGH = 100"
definition DEFAULT_FAN_OFF :: int where "DEFAULT_FAN_OFF = 0"
definition DEFAULT_FAN_MAX :: int where "DEFAULT_FAN_MAX = 100"

text \<open>The \<open>argparse.Namespace\<close> that \<open>arguments_parsing\<close> returns.\<close>

record args =
  config :: string
  min_temp :: int
  min_cool_temp :: int
  max_temp :: int
  fan_low :: int
  fan_high :: int
  wait_time :: int
  pwm_gpio :: int
  pwm_freq :: int
  verbose :: bool

text \<open>\<open>arguments_parsing\<close> on an empty command line: every option takes its default.\<close>

definition default_args :: args where
  "default_args =
     \<lparr> config = DEFAULT_CONFIG_FILE, min_temp = DEFAULT_MIN_TEMP,
       min_cool_temp = DEFAULT_MIN_TEMP_COLLING, max_temp = DEFAULT_MAX_TEMP,
       fan_low = DEFAULT_FAN_LOW, fan_high = DEFAULT_FAN_HIGH,
       wait_time = DEFAULT_WAIT_TIME, pwm_gpio = DEFAULT_PWM_GPIO_NR,
       pwm_freq = DEFAULT_PWM_FREQ, verbose = False \<rparr>"

subsection \<open>The observable world\<close>

datatype log_level = INFO | ERROR | CRITICAL

datatype log_msg =
    Starting
  | FanSpeed real real
  | FailedToReadTemperature
  | FailedToSetFanSpeed
  | ShutdownComplete
  | ErrorDuringShutdown
  | KeyboardInterruptReceived
  | CriticalErrorOccurred py_exception

text \<open>
  One event per call that leaves the process. \<open>TxPwm fan gpio freq duty\<close> is the call
  \<open>lgpio.tx_pwm(fan, gpio, freq, duty, pulse_offset=0, pulse_cycles=0)\<close>; it is recorded
  when the call is made, whether or not lgpio then raises. \<open>FanSpeed\<close> carries the two
  numbers of the log line unformatted.
\<close>

datatype event =
    GpiochipOpen int
  | GpioClaimOutput int int
  | TxPwm int int int real
  | GpiochipClose int
  | Sleep int
  | Logging log_level log_msg

record state =
  REMAIN_ACTIVATED :: int
  trace :: "event list"

definition initial_state :: state where
  "initial_state = \<lparr> REMAIN_ACTIVATED = 0, trace = [] \<rparr>"

definition emit :: "event \<Rightarrow> state \<Rightarrow> state" where
  "emit e s = s\<lparr> trace := trace s @ [e] \<rparr>"

text \<open>The duty cycles commanded in a trace, in order.\<close>

fun duties :: "event list \<Rightarrow> real list" where
  "duties [] = []"
| "duties (TxPwm fan gpio freq d # es) = d # duties es"
| "duties (e # es) = duties es"

subsection \<open>The functions of the script\<close>

text \<open>
  \<open>get_cpu_temperature\<close>: \<open>content\<close> is the number in the thermal zone file
  (millidegrees), \<open>None\<close> when opening or reading the file raises \<open>IOError\<close>, which
  is logged and raised again.
\<close>

definition get_cpu_temperature :: "real option \<Rightarrow> state \<Rightarrow> (py_exception + real) \<times> state" where
  "get_cpu_temperature content s =
     (case content of
        Some v \<Rightarrow> (Inr (v / 1000), s)
      | None \<Rightarrow> (Inl IOError, emit (Logging ERROR FailedToReadTemperature) s))"

text \<open>\<open>set_fan_speed\<close>: \<open>pwm_ok\<close> is False when \<open>lgpio.tx_pwm\<close> raises \<open>lgpio.error\<close>.\<close>

definition set_fan_speed ::
  "args \<Rightarrow> int \<Rightarrow> real \<Rightarrow> real \<Rightarrow> bool \<Rightarrow> state \<Rightarrow> (py_exception + unit) \<times> state" where
  "set_fan_speed a fan speed curr_temp pwm_ok s =
     (let s1 = emit (TxPwm fan (pwm_gpio a) (pwm_freq a) speed) s in
      if pwm_ok then (Inr (), emit (Logging INFO (FanSpeed speed curr_temp)) s1)
      else (Inl LgpioError, emit (Logging ERROR FailedToSetFanSpeed) s1))"

text \<open>
  \<open>handle_fan_speed\<close>, branch by branch. The division of the last branch raises
  \<open>ZeroDivisionError\<close> when \<open>args.max_temp - args.min_temp\<close> is 0. In the cooldown
  branch the latch is cleared after \<open>set_fan_speed\<close> has returned, so not when it raises.
\<close>

definition handle_fan_speed ::
  "args \<Rightarrow> int \<Rightarrow> real option \<Rightarrow> bool \<Rightarrow> state \<Rightarrow> (py_exception + unit) \<times> state" where
  "handle_fan_speed a fan content pwm_ok s =
     (case get_cpu_temperature content s of
        (Inl e, s0) \<Rightarrow> (Inl e, s0)
      | (Inr curr_temp, s0) \<Rightarrow>
          if \<not> (REMAIN_ACTIVATED s0 \<noteq> 0) \<and> curr_temp < real_of_int (min_temp a) then
            set_fan_speed a fan (real_of_int DEFAULT_FAN_OFF) curr_temp pwm_ok s0
          else
            let s1 = s0\<lparr> REMAIN_ACTIVATED := 1 \<rparr> in
            if curr_temp < real_of_int (min_cool_temp a) then
              (case set_fan_speed a fan (real_of_int DEFAULT_FAN_OFF) curr_temp pwm_ok s1 of
                 (Inl e, s2) \<Rightarrow> (Inl e, s2)
               | (Inr u, s2) \<Rightarrow> (Inr (), s2\<lparr> REMAIN_ACTIVATED := 0 \<rparr>))
            else if curr_temp < real_of_int (min_temp a) then
              set_fan_speed a fan (real_of_int DEFAULT_FAN_LOW) curr_temp pwm_ok s1
            else if curr_temp > real_of_int (max_temp a) then
              set_fan_speed a fan (real_of_int DEFAULT_FAN_MAX) curr_temp pwm_ok s1
            else if max_temp a - min_temp a = 0 then
              (Inl ZeroDivisionError, s1)
            else
              let adaptive_percentage =
                    (curr_temp - real_of_int (min_temp a))
                      / real_of_int (max_temp a - min_temp a);
                  fan_activation_range = fan_high a - fan_low a;
                  new_speed = real_of_int (fan_low a)
                      + (real_of_int fan_activation_range * adaptive_percentage)
              in set_fan_speed a fan new_speed curr_temp pwm_ok s1)"

text \<open>
  \<open>shutdown\<close>: \<open>close_ok\<close> is False when \<open>lgpio.gpiochip_close\<close> raises
  \<open>lgpio.error\<close>. The handler is \<open>except Exception\<close>.
\<close>

definition shutdown ::
  "args \<Rightarrow> int \<Rightarrow> bool \<Rightarrow> bool \<Rightarrow> state \<Rightarrow> (py_exception + unit) \<times> state" where
  "shutdown a fan pwm_ok close_ok s =
     (case set_fan_speed a fan (real_of_int DEFAULT_FAN_LOW) (real_of_int (min_temp a)) pwm_ok s of
        (Inl e, s1) \<Rightarrow>
          if is_Exception e then (Inr (), emit (Logging ERROR ErrorDuringShutdown) s1)
          else (Inl e, s1)
      | (Inr u, s1) \<Rightarrow>
          let s2 = emit (GpiochipClose fan) s1 in
          if close_ok then (Inr (), emit (Logging INFO ShutdownComplete) s2)
          else if is_Exception LgpioError then
            (Inr (), emit (Logging ERROR ErrorDuringShutdown) s2)
          else (Inl LgpioError, s2))"

text \<open>
  One iteration of \<open>while True\<close> needs three answers from the world: the sensor file,
  the PWM call, and whether the sleep ends by \<open>KeyboardInterrupt\<close>.
\<close>

record tick_env =
  sensor :: "real option"
  pwm_ok :: bool
  interrupted :: bool

text \<open>
  The loop never returns; it ends by an exception. The list of answers is the fuel: when
  it is used up the loop is still running, which is the result \<open>None\<close>.
\<close>

fun while_True :: "args \<Rightarrow> int \<Rightarrow> tick_env list \<Rightarrow> state \<Rightarrow> py_exception option \<times> state" where
  "while_True a fan [] s = (None, s)"
| "while_True a fan (env # envs) s =
     (case handle_fan_speed a fan (sensor env) (pwm_ok env) s of
        (Inl e, s1) \<Rightarrow> (Some e, s1)
      | (Inr u, s1) \<Rightarrow>
          let s2 = emit (Sleep (wait_time a)) s1 in
          if interrupted env then (Some KeyboardInterrupt, s2)
          else while_True a fan envs s2)"

record main_env =
  opened :: "int option"
  claim_ok :: bool
  prime_ok :: bool
  ticks :: "tick_env list"
  shutdown_pwm_ok :: bool
  shutdown_close_ok :: bool

text \<open>
  The \<open>try\<close> block of \<open>main\<close>. Besides the exception and the state it returns the
  local variable \<open>fan_control\<close>, unbound (\<open>None\<close>) when \<open>gpiochip_open\<close> raised.
\<close>

definition main_try ::
  "args \<Rightarrow> main_env \<Rightarrow> state \<Rightarrow> py_exception option \<times> int option \<times> state" where
  "main_try a env s =
     (let s0 = emit (GpiochipOpen 0) s in
      case opened env of
        None \<Rightarrow> (Some LgpioError, None, s0)
      | Some fan_control \<Rightarrow>
          let s1 = emit (GpioClaimOutput fan_control (pwm_gpio a)) s0 in
          if \<not> claim_ok env then (Some LgpioError, Some fan_control, s1)
          else
            (case set_fan_speed a fan_control (real_of_int (fan_low a))
                    (real_of_int (min_temp a)) (prime_ok env) s1 of
               (Inl e, s2) \<Rightarrow> (Some e, Some fan_control, s2)
             | (Inr u, s2) \<Rightarrow>
                 (case while_True a fan_control (ticks env) s2 of
                    (r, s3) \<Rightarrow> (r, Some fan_control, s3))))"

text \<open>
  \<open>main\<close>: the handlers, then \<open>finally\<close>. The result is \<open>None\<close> while the loop is still
  running, \<open>Some (Inr ())\<close> when \<open>main\<close> returns and \<open>Some (Inl e)\<close> when \<open>e\<close>
  leaves it. An exception that leaves \<open>finally\<close> replaces the pending one.
\<close>

definition main :: "args \<Rightarrow> main_env \<Rightarrow> state \<Rightarrow> (py_exception + unit) option \<times> state" where
  "main a env s =
     (case main_try a env s of
        (None, fan_control, s1) \<Rightarrow> (None, s1)
      | (Some e, fan_control, s1) \<Rightarrow>
          let (pending, s2) =
                (if e = KeyboardInterrupt then
                   (Inr (), emit (Logging INFO KeyboardInterruptReceived) s1)
                 else if is_Exception e then
                   (Inl (SystemExit 1), emit (Logging CRITICAL (CriticalErrorOccurred e)) s1)
                 else (Inl e, s1))
          in (case fan_control of
                None \<Rightarrow> (Some (Inl UnboundLocalError), s2)
              | Some fan \<Rightarrow>
                  (case shutdown a fan (shutdown_pwm_ok env) (shutdown_close_ok env) s2 of
                     (Inl e', s3) \<Rightarrow> (Some (Inl e'), s3)
                   | (Inr u, s3) \<Rightarrow> (Some pending, s3))))"

subsection \<open>Configuration file\<close>

text \<open>
  The file as \<open>configparser\<close> sees it after \<open>read\<close>: sections of options. A value is
  the integer it denotes, or \<open>NotAnInt\<close> when \<open>int()\<close> rejects the text, in which case
  \<open>getint\<close> raises \<open>ValueError\<close>; \<open>fallback\<close> is used when the section or the option
  is missing.
\<close>

datatype config_value = IntValue int | NotAnInt

type_synonym config_file = "string \<Rightarrow> (string \<Rightarrow> config_value option) option"

definition getint :: "config_file \<Rightarrow> string \<Rightarrow> string \<Rightarrow> int \<Rightarrow> py_exception + int" where
  "getint cfg section option fallback =
     (case cfg section of
        None \<Rightarrow> Inr fallback
      | Some sec \<Rightarrow>
          (case sec option of
             None \<Rightarrow> Inr fallback
           | Some (IntValue i) \<Rightarrow> Inr i
           | Some NotAnInt \<Rightarrow> Inl ValueError))"

definition config_parsing :: "args \<Rightarrow> config_file \<Rightarrow> py_exception + args" where
  "config_parsing a cfg =
     (case getint cfg ''FanControl'' ''min_temp'' (min_temp a) of Inl e \<Rightarrow> Inl e | Inr v1 \<Rightarrow>
     (case getint cfg ''FanControl'' ''min_cool_temp'' (min_cool_temp a) of Inl e \<Rightarrow> Inl e | Inr v2 \<Rightarrow>
     (case getint cfg ''FanControl'' ''max_temp'' (max_temp a) of Inl e \<Rightarrow> Inl e | Inr v3 \<Rightarrow>
     (case getint cfg ''FanControl'' ''fan_low'' (fan_low a) of Inl e \<Rightarrow> Inl e | Inr v4 \<Rightarrow>
     (case getint cfg ''FanControl'' ''fan_high'' (fan_high a) of Inl e \<Rightarrow> Inl e | Inr v5 \<Rightarrow>
     (case getint cfg ''FanControl'' ''wait_time'' (wait_time a) of Inl e \<Rightarrow> Inl e | Inr v6 \<Rightarrow>
     (case getint cfg ''FanControl'' ''pwm_gpio'' (pwm_gpio a) of Inl e \<Rightarrow> Inl e | Inr v7 \<Rightarrow>
     (case getint cfg ''FanControl'' ''pwm_freq'' (pwm_freq a) of Inl e \<Rightarrow> Inl e | Inr v8 \<Rightarrow>
        Inr (a\<lparr> min_temp := v1, min_cool_temp := v2, max_temp := v3, fan_low := v4,
                fan_high := v5, wait_time := v6, pwm_gpio := v7, pwm_freq := v8 \<rparr>)))))))))"

text \<open>
  The script body: the configuration file is read when it exists (\<open>Some cfg\<close>), the
  settings are logged and \<open>main\<close> runs. Nothing between parsing and \<open>main\<close> looks at
  the values.
\<close>

definition script ::
  "args \<Rightarrow> config_file option \<Rightarrow> main_env \<Rightarrow> state \<Rightarrow> (py_exception + unit) option \<times> state" where
  "script a file env s =
     (case (case file of None \<Rightarrow> Inr a | Some cfg \<Rightarrow> config_parsing a cfg) of
        Inl e \<Rightarrow> (Some (Inl e), s)
      | Inr a' \<Rightarrow> main a' env (emit (Logging INFO Starting) s))"

text \<open>The configurations the specification calls valid.\<close>

definition valid_config :: "args \<Rightarrow> bool" where
  "valid_config a \<longleftrightarrow>
     min_cool_temp a < min_temp a \<and> min_temp a < max_temp a \<and>
     0 \<le> fan_low a \<and> fan_low a \<le> fan_high a \<and> fan_high a \<le> 100"

subsection \<open>Concrete inputs\<close>

text \<open>
  A configuration file whose only entry is \<open>max_temp = 55\<close> in section \<open>FanControl\<close>,
  which is the default \<open>min_temp\<close>, and a world in which every call succeeds and the
  sensor file holds 55000.
\<close>

definition zero_span_file :: config_file where
  "zero_span_file =
     (\<lambda>section. if section = ''FanControl''
        then Some (\<lambda>option. if option = ''max_temp'' then Some (IntValue 55) else None)
        else None)"

definition zero_span_env :: main_env where
  "zero_span_env =
     \<lparr> opened = Some 3, claim_ok = True, prime_ok = True,
       ticks = [\<lparr> sensor = Some 55000, pwm_ok = True, interrupted = False \<rparr>],
       shutdown_pwm_ok = True, shutdown_close_ok = True \<rparr>"

text \<open>
  The state in which \<open>main\<close> enters the loop when \<open>gpiochip_open\<close>,
  \<open>gpio_claim_output\<close> and the priming \<open>set_fan_speed\<close> have succeeded.
\<close>

definition entering_loop :: "args \<Rightarrow> int \<Rightarrow> state \<Rightarrow> state" where
  "entering_loop a fan s =
     snd (set_fan_speed a fan (real_of_int (fan_low a)) (real_of_int (min_temp a)) True
            (emit (GpioClaimOutput fan (pwm_gpio a)) (emit (GpiochipOpen 0) s)))"

text \<open>
  A run in which the first tick succeeds at 40 degrees and the sensor cannot be read in
  the second; a third answer is there in case the loop went on.
\<close>

definition failing_run :: main_env where
  "failing_run =
     \<lparr> opened = Some 3, claim_ok = True, prime_ok = True,
       ticks = [\<lparr> sensor = Some 40000, pwm_ok = True, interrupted = False \<rparr>,
                \<lparr> sensor = None, pwm_ok = True, interrupted = False \<rparr>,
                \<lparr> sensor = Some 60000, pwm_ok = True, interrupted = False \<rparr>],
       shutdown_pwm_ok = True, shutdown_close_ok = True \<rparr>"

section \<open>Properties\<close>

lemmas DEFAULTS =
  DEFAULT_CONFIG_FILE_def DEFAULT_PWM_GPIO_NR_def DEFAULT_WAIT_TIME_def DEFAULT_PWM_FREQ_def
  DEFAULT_MIN_TEMP_def DEFAULT_MIN_TEMP_COLLING_def DEFAULT_MAX_TEMP_def DEFAULT_FAN_LOW_def
  DEFAULT_FAN_HIGH_def DEFAULT_FAN_OFF_def DEFAULT_FAN_MAX_def

subsection \<open>Facts about the trace and \<open>set_fan_speed\<close>\<close>

lemma duties_append: "duties (xs @ ys) = duties xs @ duties ys"
  by (induction xs rule: duties.induct) simp_all

lemma set_fan_speed_fst:
  "fst (set_fan_speed a fan d t ok s) = (if ok then Inr () else Inl LgpioError)"
  by (simp add: set_fan_speed_def Let_def)

lemma set_fan_speed_latch:
  "REMAIN_ACTIVATED (snd (set_fan_speed a fan d t ok s)) = REMAIN_ACTIVATED s"
  by (simp add: set_fan_speed_def emit_def Let_def)

lemma set_fan_speed_duties:
  "duties (trace (snd (set_fan_speed a fan d t ok s))) = duties (trace s) @ [d]"
  by (simp add: set_fan_speed_def emit_def Let_def duties_append)

text \<open>The ramp value stays between its end points.\<close>

lemma ramp_bounds:
  fixes t lo hi :: real and l h :: real
  assumes "lo < hi" "lo \<le> t" "t \<le> hi" "l \<le> h"
  shows "l \<le> l + (h - l) * ((t - lo) / (hi - lo))"
    and "l + (h - l) * ((t - lo) / (hi - lo)) \<le> h"
proof -
  let ?x = "(t - lo) / (hi - lo)"
  have x0: "0 \<le> ?x" using assms by simp
  have x1: "?x \<le> 1" using assms by simp
  have "0 \<le> (h - l) * ?x" using x0 assms by simp
  then show "l \<le> l + (h - l) * ?x" by simp
  have "(h - l) * ?x \<le> (h - l) * 1"
    using x1 assms by (intro mult_left_mono) simp_all
  then show "l + (h - l) * ?x \<le> h" by simp
qed

subsection \<open>The branches of \<open>handle_fan_speed\<close>\<close>

text \<open>
  One equation per branch, under the conditions that select it. In each, \<open>v\<close> is the
  content of the sensor file, so the temperature is \<open>v / 1000\<close>.
\<close>

lemma tick_sensor_fails:
  "handle_fan_speed a fan None ok s = (Inl IOError, emit (Logging ERROR FailedToReadTemperature) s)"
  by (simp add: handle_fan_speed_def get_cpu_temperature_def)

lemma tick_idle:
  assumes "REMAIN_ACTIVATED s = 0" "v / 1000 < real_of_int (min_temp a)"
  shows "handle_fan_speed a fan (Some v) ok s = set_fan_speed a fan 0 (v / 1000) ok s"
  using assms by (simp add: handle_fan_speed_def get_cpu_temperature_def DEFAULT_FAN_OFF_def)

lemma tick_cooldown:
  assumes "REMAIN_ACTIVATED s \<noteq> 0 \<or> real_of_int (min_temp a) \<le> v / 1000"
    "v / 1000 < real_of_int (min_cool_temp a)"
  shows "handle_fan_speed a fan (Some v) ok s =
    (case set_fan_speed a fan 0 (v / 1000) ok (s\<lparr>REMAIN_ACTIVATED := 1\<rparr>) of
       (Inl e, s2) \<Rightarrow> (Inl e, s2) | (Inr u, s2) \<Rightarrow> (Inr (), s2\<lparr>REMAIN_ACTIVATED := 0\<rparr>))"
  using assms
  by (auto simp add: handle_fan_speed_def get_cpu_temperature_def DEFAULT_FAN_OFF_def Let_def)

lemma tick_cooldown_latch:
  assumes "REMAIN_ACTIVATED s \<noteq> 0 \<or> real_of_int (min_temp a) \<le> v / 1000"
    "v / 1000 < real_of_int (min_cool_temp a)"
  shows "REMAIN_ACTIVATED (snd (handle_fan_speed a fan (Some v) ok s)) = (if ok then 0 else 1)"
    and "fst (handle_fan_speed a fan (Some v) ok s) = (if ok then Inr () else Inl LgpioError)"
  using assms by (simp_all add: tick_cooldown set_fan_speed_def emit_def Let_def)

lemma tick_low:
  assumes "REMAIN_ACTIVATED s \<noteq> 0"
    "real_of_int (min_cool_temp a) \<le> v / 1000" "v / 1000 < real_of_int (min_temp a)"
  shows "handle_fan_speed a fan (Some v) ok s =
     set_fan_speed a fan (real_of_int DEFAULT_FAN_LOW) (v / 1000) ok (s\<lparr>REMAIN_ACTIVATED := 1\<rparr>)"
  using assms by (auto simp add: handle_fan_speed_def get_cpu_temperature_def Let_def)

lemma tick_max:
  assumes "real_of_int (min_cool_temp a) \<le> v / 1000" "real_of_int (min_temp a) \<le> v / 1000"
    "real_of_int (max_temp a) < v / 1000"
  shows "handle_fan_speed a fan (Some v) ok s =
     set_fan_speed a fan (real_of_int DEFAULT_FAN_MAX) (v / 1000) ok (s\<lparr>REMAIN_ACTIVATED := 1\<rparr>)"
  using assms by (auto simp add: handle_fan_speed_def get_cpu_temperature_def Let_def)

lemma tick_ramp:
  assumes "real_of_int (min_cool_temp a) \<le> v / 1000" "real_of_int (min_temp a) \<le> v / 1000"
    "v / 1000 \<le> real_of_int (max_temp a)" "max_temp a \<noteq> min_temp a"
  shows "handle_fan_speed a fan (Some v) ok s =
     set_fan_speed a fan
       (real_of_int (fan_low a) + real_of_int (fan_high a - fan_low a) *
          ((v / 1000 - real_of_int (min_temp a)) / real_of_int (max_temp a - min_temp a)))
       (v / 1000) ok (s\<lparr>REMAIN_ACTIVATED := 1\<rparr>)"
  using assms by (auto simp add: handle_fan_speed_def get_cpu_temperature_def Let_def)

lemma valid_config_order:
  assumes "valid_config a"
  shows "real_of_int (min_cool_temp a) < real_of_int (min_temp a)"
    and "real_of_int (min_temp a) < real_of_int (max_temp a)"
    and "max_temp a \<noteq> min_temp a"
  using assms by (simp_all add: valid_config_def)

lemma valid_config_fan:
  assumes "valid_config a"
  shows "0 \<le> real_of_int (fan_low a)"
    and "real_of_int (fan_low a) \<le> real_of_int (fan_high a)"
    and "real_of_int (fan_high a) \<le> 100"
  using assms by (simp_all add: valid_config_def)

lemma valid_config_default_args: "valid_config default_args"
  by (simp add: valid_config_def default_args_def DEFAULTS)

subsection \<open>The low-speed band\<close>

text \<open>
  Claim C1 says that in the low-speed band (latch engaged, temperature at least
  \<open>min_cool_temp\<close> and below \<open>min_temp\<close>) a tick commands the configured \<open>fan_low\<close>
  and leaves the latch engaged, also when \<open>fan_low\<close> is not 50. The code commands the
  constant \<open>DEFAULT_FAN_LOW\<close> there: with \<open>fan_low = 30\<close> and every other option at its
  default (a valid configuration), a tick at 52 degrees with the latch engaged commands a
  duty cycle of 50, not 30; the latch stays engaged.
\<close>

theorem low_speed_band_commands_DEFAULT_FAN_LOW:
  "valid_config (default_args\<lparr>fan_low := 30\<rparr>) \<and>
   handle_fan_speed (default_args\<lparr>fan_low := 30\<rparr>) 3 (Some 52000) True
       (initial_state\<lparr>REMAIN_ACTIVATED := 1\<rparr>)
     = (Inr (), \<lparr> REMAIN_ACTIVATED = 1,
                  trace = [TxPwm 3 14 10000 50, Logging INFO (FanSpeed 50 52)] \<rparr>)"
  by (simp add: handle_fan_speed_def get_cpu_temperature_def set_fan_speed_def emit_def
      valid_config_def default_args_def initial_state_def DEFAULTS Let_def)

subsection \<open>Division by zero\<close>

text \<open>
  Claim C2, as amended. The script does not validate the configuration. A tick raises
  \<open>ZeroDivisionError\<close> exactly when the sensor was read, \<open>max_temp = min_temp\<close>, and the
  temperature equals \<open>min_temp\<close> and is not below \<open>min_cool_temp\<close>; so for every
  configuration with \<open>max_temp \<noteq> min_temp\<close>, in particular for every valid one, no tick
  at any temperature divides by zero.
\<close>

theorem tick_divides_by_zero_iff:
  "(fst (handle_fan_speed a fan content ok s) = Inl ZeroDivisionError \<longleftrightarrow>
      (\<exists>v. content = Some v \<and> max_temp a = min_temp a \<and>
           v / 1000 = real_of_int (min_temp a) \<and> real_of_int (min_cool_temp a) \<le> v / 1000))
   \<and> (max_temp a \<noteq> min_temp a \<longrightarrow>
        fst (handle_fan_speed a fan content ok s) \<noteq> Inl ZeroDivisionError)"
proof -
  have iff: "fst (handle_fan_speed a fan content ok s) = Inl ZeroDivisionError \<longleftrightarrow>
      (\<exists>v. content = Some v \<and> max_temp a = min_temp a \<and>
           v / 1000 = real_of_int (min_temp a) \<and> real_of_int (min_cool_temp a) \<le> v / 1000)"
  proof (cases content)
    case None
    then show ?thesis by (simp add: tick_sensor_fails)
  next
    case (Some v)
    then show ?thesis
      by (auto simp add: handle_fan_speed_def get_cpu_temperature_def set_fan_speed_def Let_def)
  qed
  then show ?thesis by blast
qed

text \<open>
  The theorem at the default configuration (\<open>max_temp = 75\<close>, \<open>min_temp = 55\<close>) and a
  reading of 55 degrees.
\<close>

theorem tick_divides_by_zero_iff_witness:
  "max_temp default_args \<noteq> min_temp default_args \<and>
   fst (handle_fan_speed default_args 3 (Some 55000) True initial_state) \<noteq> Inl ZeroDivisionError"
proof -
  have h: "max_temp default_args \<noteq> min_temp default_args"
    by (simp add: default_args_def DEFAULTS)
  show ?thesis
    using h tick_divides_by_zero_iff [of default_args 3 "Some 55000" True initial_state]
    by blast
qed

text \<open>
  Claim C2 as stated fails: the file with \<open>max_temp = 55\<close> is accepted, \<open>main\<close> starts,
  and the first tick, at 55 degrees, raises \<open>ZeroDivisionError\<close>, which \<open>main\<close> logs as
  critical before it shuts down and exits with status 1.
\<close>

theorem zero_span_configuration_reaches_tick:
  "script default_args (Some zero_span_file) zero_span_env initial_state
     = (Some (Inl (SystemExit 1)),
        \<lparr> REMAIN_ACTIVATED = 1,
          trace = [Logging INFO Starting, GpiochipOpen 0, GpioClaimOutput 3 14,
                   TxPwm 3 14 10000 50, Logging INFO (FanSpeed 50 55),
                   Logging CRITICAL (CriticalErrorOccurred ZeroDivisionError),
                   TxPwm 3 14 10000 50, Logging INFO (FanSpeed 50 55),
                   GpiochipClose 3, Logging INFO ShutdownComplete] \<rparr>)"
  by (simp add: script_def config_parsing_def getint_def zero_span_file_def zero_span_env_def
      main_def main_try_def shutdown_def handle_fan_speed_def get_cpu_temperature_def
      set_fan_speed_def emit_def default_args_def initial_state_def DEFAULTS Let_def)

subsection \<open>The activation latch\<close>

text \<open>
  Claim C3, as amended. For a valid configuration and a tick that reads the
  temperature, the latch is set afterwards exactly when (it was set or the temperature
  is at least \<open>min_temp\<close>) and (the temperature is at least \<open>min_cool_temp\<close> or the
  PWM write raised). So after every tick that completes it is set exactly when (it was
  set or the temperature is at least \<open>min_temp\<close>) and the temperature is at least
  \<open>min_cool_temp\<close>; from idle it engages exactly when the temperature is at least
  \<open>min_temp\<close>, whatever the PWM call answers; once engaged it releases exactly when
  the temperature is below \<open>min_cool_temp\<close> and the PWM write succeeds. The tick
  returns when the write succeeds and raises \<open>lgpio.error\<close> when it does not. A tick
  that cannot read the temperature leaves the latch as it was.
\<close>

theorem latch_update:
  assumes "valid_config a"
  shows "fst (handle_fan_speed a fan (Some v) ok s) = (if ok then Inr () else Inl LgpioError) \<and>
    (REMAIN_ACTIVATED (snd (handle_fan_speed a fan (Some v) ok s)) \<noteq> 0 \<longleftrightarrow>
       (REMAIN_ACTIVATED s \<noteq> 0 \<or> real_of_int (min_temp a) \<le> v / 1000) \<and>
       (real_of_int (min_cool_temp a) \<le> v / 1000 \<or> \<not> ok)) \<and>
    (ok \<longrightarrow>
       (REMAIN_ACTIVATED (snd (handle_fan_speed a fan (Some v) ok s)) \<noteq> 0 \<longleftrightarrow>
          (REMAIN_ACTIVATED s \<noteq> 0 \<or> real_of_int (min_temp a) \<le> v / 1000) \<and>
          real_of_int (min_cool_temp a) \<le> v / 1000)) \<and>
    (REMAIN_ACTIVATED s = 0 \<longrightarrow>
       (REMAIN_ACTIVATED (snd (handle_fan_speed a fan (Some v) ok s)) \<noteq> 0 \<longleftrightarrow>
          real_of_int (min_temp a) \<le> v / 1000)) \<and>
    (REMAIN_ACTIVATED s \<noteq> 0 \<longrightarrow>
       (REMAIN_ACTIVATED (snd (handle_fan_speed a fan (Some v) ok s)) = 0 \<longleftrightarrow>
          v / 1000 < real_of_int (min_cool_temp a) \<and> ok)) \<and>
    REMAIN_ACTIVATED (snd (handle_fan_speed a fan None ok s)) = REMAIN_ACTIVATED s"
proof -
  let ?t = "v / 1000"
  let ?r = "handle_fan_speed a fan (Some v) ok s"
  note ord = valid_config_order [OF assms]
  consider (idle) "REMAIN_ACTIVATED s = 0" "?t < real_of_int (min_temp a)"
    | (cool) "REMAIN_ACTIVATED s \<noteq> 0" "?t < real_of_int (min_cool_temp a)"
    | (low) "REMAIN_ACTIVATED s \<noteq> 0" "real_of_int (min_cool_temp a) \<le> ?t"
        "?t < real_of_int (min_temp a)"
    | (ramp) "real_of_int (min_cool_temp a) \<le> ?t" "real_of_int (min_temp a) \<le> ?t"
        "?t \<le> real_of_int (max_temp a)"
    | (sat) "real_of_int (min_cool_temp a) \<le> ?t" "real_of_int (min_temp a) \<le> ?t"
        "real_of_int (max_temp a) < ?t"
    using ord by fastforce
  then have main: "fst ?r = (if ok then Inr () else Inl LgpioError) \<and>
    (REMAIN_ACTIVATED (snd ?r) \<noteq> 0 \<longleftrightarrow>
       (REMAIN_ACTIVATED s \<noteq> 0 \<or> real_of_int (min_temp a) \<le> ?t) \<and>
       (real_of_int (min_cool_temp a) \<le> ?t \<or> \<not> ok))"
  proof cases
    case idle
    then show ?thesis using ord
      by (simp add: tick_idle set_fan_speed_fst set_fan_speed_latch)
  next
    case cool
    then show ?thesis using ord
      by (simp add: tick_cooldown_latch)
  next
    case low
    then show ?thesis using ord
      by (simp add: tick_low set_fan_speed_fst set_fan_speed_latch)
  next
    case ramp
    then show ?thesis using ord
      by (simp add: tick_ramp set_fan_speed_fst set_fan_speed_latch)
  next
    case sat
    then show ?thesis using ord
      by (simp add: tick_max set_fan_speed_fst set_fan_speed_latch)
  qed
  have unread: "REMAIN_ACTIVATED (snd (handle_fan_speed a fan None ok s)) = REMAIN_ACTIVATED s"
    by (simp add: tick_sensor_fails emit_def)
  show ?thesis using main unread ord by auto
qed

text \<open>
  At the default configuration: from idle, 55 degrees engages the latch and 54.999 does
  not; once engaged, 49.999 degrees releases it and 50 does not; and 49.999 degrees with
  a PWM write that raises leaves it engaged.
\<close>

theorem latch_update_witness:
  "valid_config default_args \<and>
   REMAIN_ACTIVATED (snd (handle_fan_speed default_args 3 (Some 55000) True initial_state)) \<noteq> 0 \<and>
   REMAIN_ACTIVATED (snd (handle_fan_speed default_args 3 (Some 54999) True initial_state)) = 0 \<and>
   REMAIN_ACTIVATED (snd (handle_fan_speed default_args 3 (Some 49999) True
       (initial_state\<lparr>REMAIN_ACTIVATED := 1\<rparr>))) = 0 \<and>
   REMAIN_ACTIVATED (snd (handle_fan_speed default_args 3 (Some 50000) True
       (initial_state\<lparr>REMAIN_ACTIVATED := 1\<rparr>))) \<noteq> 0 \<and>
   REMAIN_ACTIVATED (snd (handle_fan_speed default_args 3 (Some 49999) False
       (initial_state\<lparr>REMAIN_ACTIVATED := 1\<rparr>))) \<noteq> 0 \<and>
   fst (handle_fan_speed default_args 3 (Some 49999) False
       (initial_state\<lparr>REMAIN_ACTIVATED := 1\<rparr>)) = Inl LgpioError"
proof -
  have v: "valid_config default_args"
    by (simp add: valid_config_def default_args_def DEFAULTS)
  show ?thesis
    using v latch_update [OF v, of 3 55000 True initial_state]
      latch_update [OF v, of 3 54999 True initial_state]
      latch_update [OF v, of 3 49999 True "initial_state\<lparr>REMAIN_ACTIVATED := 1\<rparr>"]
      latch_update [OF v, of 3 50000 True "initial_state\<lparr>REMAIN_ACTIVATED := 1\<rparr>"]
      latch_update [OF v, of 3 49999 False "initial_state\<lparr>REMAIN_ACTIVATED := 1\<rparr>"]
    by (simp add: default_args_def initial_state_def DEFAULTS)
qed

text \<open>
  Claim C3 as stated, for every tick, fails on a tick whose PWM write raises in the
  cooldown branch: at the default configuration, with the latch engaged and 40 degrees,
  \<open>set_fan_speed\<close> raises before the latch is cleared, so the latch stays 1 although
  the temperature is below \<open>min_cool_temp\<close>.
\<close>

theorem failed_write_keeps_latch_in_cooldown:
  "valid_config default_args \<and>
   handle_fan_speed default_args 3 (Some 40000) False (initial_state\<lparr>REMAIN_ACTIVATED := 1\<rparr>)
     = (Inl LgpioError,
        \<lparr> REMAIN_ACTIVATED = 1,
          trace = [TxPwm 3 14 10000 0, Logging ERROR FailedToSetFanSpeed] \<rparr>) \<and>
   \<not> (REMAIN_ACTIVATED (snd (handle_fan_speed default_args 3 (Some 40000) False
            (initial_state\<lparr>REMAIN_ACTIVATED := 1\<rparr>))) \<noteq> 0 \<longleftrightarrow>
        (REMAIN_ACTIVATED (initial_state\<lparr>REMAIN_ACTIVATED := 1\<rparr>) \<noteq> 0
           \<or> real_of_int (min_temp default_args) \<le> 40000 / 1000) \<and>
        real_of_int (min_cool_temp default_args) \<le> 40000 / 1000)"
  by (simp add: handle_fan_speed_def get_cpu_temperature_def set_fan_speed_def emit_def
      valid_config_def default_args_def initial_state_def DEFAULTS Let_def)

subsection \<open>The range of the duty cycle\<close>

text \<open>
  Claim C4. For every configuration with \<open>min_cool_temp < min_temp < max_temp\<close> and
  \<open>0 \<le> fan_low \<le> fan_high \<le> 100\<close>, every temperature and every latch state, a tick
  that reads the sensor commands exactly one duty cycle, and it lies in \<open>[0, 100]\<close>.
\<close>

theorem duty_within_0_100:
  assumes "valid_config a"
  shows "\<exists>d. duties (trace (snd (handle_fan_speed a fan (Some v) ok s))) = duties (trace s) @ [d]
           \<and> 0 \<le> d \<and> d \<le> 100"
proof -
  let ?t = "v / 1000"
  note ord = valid_config_order [OF assms] and fan = valid_config_fan [OF assms]
  consider (idle) "REMAIN_ACTIVATED s = 0" "?t < real_of_int (min_temp a)"
    | (cool) "REMAIN_ACTIVATED s \<noteq> 0" "?t < real_of_int (min_cool_temp a)"
    | (low) "REMAIN_ACTIVATED s \<noteq> 0" "real_of_int (min_cool_temp a) \<le> ?t"
        "?t < real_of_int (min_temp a)"
    | (ramp) "real_of_int (min_cool_temp a) \<le> ?t" "real_of_int (min_temp a) \<le> ?t"
        "?t \<le> real_of_int (max_temp a)"
    | (sat) "real_of_int (min_cool_temp a) \<le> ?t" "real_of_int (min_temp a) \<le> ?t"
        "real_of_int (max_temp a) < ?t"
    using ord by fastforce
  then show ?thesis
  proof cases
    case idle
    then show ?thesis by (simp add: tick_idle set_fan_speed_duties)
  next
    case cool
    then show ?thesis
      by (simp add: tick_cooldown set_fan_speed_def emit_def duties_append Let_def)
  next
    case low
    then show ?thesis by (simp add: tick_low set_fan_speed_duties DEFAULT_FAN_LOW_def)
  next
    case ramp
    let ?d = "real_of_int (fan_low a) + (real_of_int (fan_high a) - real_of_int (fan_low a)) *
          ((?t - real_of_int (min_temp a)) / (real_of_int (max_temp a) - real_of_int (min_temp a)))"
    have "real_of_int (fan_low a) \<le> ?d" "?d \<le> real_of_int (fan_high a)"
      using ramp_bounds [OF ord(2) ramp(2,3) fan(2)] by simp_all
    then have "0 \<le> ?d" "?d \<le> 100" using fan by linarith+
    then show ?thesis using ramp ord
      by (simp add: tick_ramp set_fan_speed_duties)
  next
    case sat
    then show ?thesis by (simp add: tick_max set_fan_speed_duties DEFAULT_FAN_MAX_def)
  qed
qed

text \<open>At the default configuration, 61.5 degrees, from the initial state.\<close>

theorem duty_within_0_100_witness:
  "valid_config default_args \<and>
   (\<exists>d. duties (trace (snd (handle_fan_speed default_args 3 (Some 61500) True initial_state)))
          = duties (trace initial_state) @ [d] \<and> 0 \<le> d \<and> d \<le> 100)"
proof -
  have v: "valid_config default_args"
    by (simp add: valid_config_def default_args_def DEFAULTS)
  show ?thesis using v duty_within_0_100 [OF v, of 3 61500 True initial_state] by simp
qed

subsection \<open>The linear ramp\<close>

text \<open>
  Claim C5. For a valid configuration and a temperature with
  \<open>min_temp \<le> temperature \<le> max_temp\<close>, a tick commands the duty cycle
  \<open>fan_low + (fan_high - fan_low) * (temperature - min_temp) / (max_temp - min_temp)\<close>,
  which lies in \<open>[fan_low, fan_high]\<close>, and the latch is engaged afterwards. This holds
  whatever the latch was before, so in particular when it was engaged. The instance of
  the specification (\<open>min_temp = 55\<close>, \<open>max_temp = 75\<close>, \<open>fan_low = 50\<close>,
  \<open>fan_high = 100\<close>, 65 degrees, latch engaged, duty 75) follows the theorem.
\<close>

theorem ramp_duty:
  assumes "valid_config a"
    and "real_of_int (min_temp a) \<le> v / 1000" and "v / 1000 \<le> real_of_int (max_temp a)"
  shows "duties (trace (snd (handle_fan_speed a fan (Some v) ok s)))
           = duties (trace s) @
             [real_of_int (fan_low a) + real_of_int (fan_high a - fan_low a)
                * (v / 1000 - real_of_int (min_temp a)) / real_of_int (max_temp a - min_temp a)]
       \<and> real_of_int (fan_low a)
           \<le> real_of_int (fan_low a) + real_of_int (fan_high a - fan_low a)
                * (v / 1000 - real_of_int (min_temp a)) / real_of_int (max_temp a - min_temp a)
       \<and> real_of_int (fan_low a) + real_of_int (fan_high a - fan_low a)
                * (v / 1000 - real_of_int (min_temp a)) / real_of_int (max_temp a - min_temp a)
           \<le> real_of_int (fan_high a)
       \<and> REMAIN_ACTIVATED (snd (handle_fan_speed a fan (Some v) ok s)) = 1
       \<and> fst (handle_fan_speed a fan (Some v) ok s) = (if ok then Inr () else Inl LgpioError)"
proof -
  let ?t = "v / 1000"
  note ord = valid_config_order [OF assms(1)] and fan = valid_config_fan [OF assms(1)]
  have cool: "real_of_int (min_cool_temp a) \<le> ?t" using ord assms by linarith
  have b: "real_of_int (fan_low a) \<le> real_of_int (fan_low a)
        + (real_of_int (fan_high a) - real_of_int (fan_low a))
          * ((?t - real_of_int (min_temp a)) / (real_of_int (max_temp a) - real_of_int (min_temp a)))"
     "real_of_int (fan_low a)
        + (real_of_int (fan_high a) - real_of_int (fan_low a))
          * ((?t - real_of_int (min_temp a)) / (real_of_int (max_temp a) - real_of_int (min_temp a)))
      \<le> real_of_int (fan_high a)"
    using ramp_bounds [OF ord(2) assms(2,3) fan(2)] by simp_all
  show ?thesis
    using b by (simp add: tick_ramp [OF cool assms(2,3) ord(3)] set_fan_speed_duties
       set_fan_speed_latch set_fan_speed_fst)
qed

text \<open>The midpoint of the default ramp: 65 degrees gives a duty cycle of 75.\<close>

theorem ramp_duty_witness:
  "valid_config default_args \<and> min_temp default_args = 55 \<and> max_temp default_args = 75 \<and>
   fan_low default_args = 50 \<and> fan_high default_args = 100 \<and>
   duties (trace (snd (handle_fan_speed default_args 3 (Some 65000) True
       (initial_state\<lparr>REMAIN_ACTIVATED := 1\<rparr>)))) = [75]"
proof -
  have v: "valid_config default_args"
    by (simp add: valid_config_def default_args_def DEFAULTS)
  have lo: "real_of_int (min_temp default_args) \<le> 65000 / 1000"
    and hi: "65000 / 1000 \<le> real_of_int (max_temp default_args)"
    by (simp_all add: default_args_def DEFAULTS)
  show ?thesis
    using v ramp_duty [OF v lo hi, of 3 True "initial_state\<lparr>REMAIN_ACTIVATED := 1\<rparr>"]
    by (simp add: default_args_def initial_state_def DEFAULTS)
qed

subsection \<open>The lower bound of activation\<close>

text \<open>
  Claim C8. For a valid configuration, a tick at a temperature equal to \<open>min_temp\<close>
  with the latch released engages the latch and commands the configured \<open>fan_low\<close>.
\<close>

theorem activation_at_min_temp:
  assumes "valid_config a" and "REMAIN_ACTIVATED s = 0"
    and "v / 1000 = real_of_int (min_temp a)"
  shows "handle_fan_speed a fan (Some v) True s =
           (Inr (), s\<lparr> REMAIN_ACTIVATED := 1,
                       trace := trace s @ [TxPwm fan (pwm_gpio a) (pwm_freq a) (real_of_int (fan_low a)),
                                           Logging INFO (FanSpeed (real_of_int (fan_low a)) (real_of_int (min_temp a)))] \<rparr>)"
proof -
  note ord = valid_config_order [OF assms(1)]
  have c: "real_of_int (min_cool_temp a) \<le> v / 1000" "real_of_int (min_temp a) \<le> v / 1000"
    "v / 1000 \<le> real_of_int (max_temp a)"
    using ord assms(3) by simp_all
  show ?thesis
    by (simp add: tick_ramp [OF c ord(3)] assms(3) set_fan_speed_def emit_def Let_def)
qed

text \<open>At the default configuration: 55 degrees from the initial state.\<close>

theorem activation_at_min_temp_witness:
  "valid_config default_args \<and> REMAIN_ACTIVATED initial_state = 0 \<and>
   handle_fan_speed default_args 3 (Some 55000) True initial_state =
     (Inr (), \<lparr> REMAIN_ACTIVATED = 1,
                  trace = [TxPwm 3 14 10000 50, Logging INFO (FanSpeed 50 55)] \<rparr>)"
proof -
  have v: "valid_config default_args"
    by (simp add: valid_config_def default_args_def DEFAULTS)
  have l: "REMAIN_ACTIVATED initial_state = 0" by (simp add: initial_state_def)
  have t: "55000 / 1000 = real_of_int (min_temp default_args)"
    by (simp add: default_args_def DEFAULTS)
  show ?thesis
    using v l activation_at_min_temp [OF v l t, of 3]
    by (simp add: default_args_def initial_state_def DEFAULTS)
qed

subsection \<open>Determinism\<close>

text \<open>
  Claim C9, as amended. Take two evaluations of a tick with the same configuration and
  the same temperature, from two states whose latches are both set or both clear; the
  histories, the handles and the answers of the PWM call may differ. Then both command
  the same duty cycles: the duty is determined by temperature, latch and configuration
  alone. When the PWM call answers the same in both (in particular when both ticks
  complete) they end the same way and leave the same latch; when in addition the handle
  is the same they make the same calls. Besides its inputs the tick reads the latch
  only, and it changes the latch only; everything else it does is appended to the trace.
\<close>

theorem tick_determined_by_temperature_latch_config:
  assumes "(REMAIN_ACTIVATED s \<noteq> 0) = (REMAIN_ACTIVATED s' \<noteq> 0)"
  shows "(\<exists>ds. duties (trace (snd (handle_fan_speed a fan (Some v) ok s))) = duties (trace s) @ ds
            \<and> duties (trace (snd (handle_fan_speed a fan' (Some v) ok' s'))) = duties (trace s') @ ds)
    \<and> (ok = ok' \<longrightarrow>
          fst (handle_fan_speed a fan (Some v) ok s) = fst (handle_fan_speed a fan' (Some v) ok' s')
        \<and> REMAIN_ACTIVATED (snd (handle_fan_speed a fan (Some v) ok s))
            = REMAIN_ACTIVATED (snd (handle_fan_speed a fan' (Some v) ok' s')))
    \<and> (ok = ok' \<and> fan = fan' \<longrightarrow>
          (\<exists>new. trace (snd (handle_fan_speed a fan (Some v) ok s)) = trace s @ new
             \<and> trace (snd (handle_fan_speed a fan' (Some v) ok' s')) = trace s' @ new))"
  using assms
  by (auto simp add: handle_fan_speed_def get_cpu_temperature_def set_fan_speed_def emit_def
      duties_append Let_def)

text \<open>
  Two states with the latch engaged and different histories, two handles: at 60 degrees
  a write that succeeds and one that raises command the same duty; at 40 degrees two
  writes that succeed end the same way and leave the same latch.
\<close>

theorem tick_determined_by_temperature_latch_config_witness:
  "((REMAIN_ACTIVATED (initial_state\<lparr>REMAIN_ACTIVATED := 1\<rparr>) \<noteq> 0)
      = (REMAIN_ACTIVATED \<lparr> REMAIN_ACTIVATED = 1, trace = [Sleep 10] \<rparr> \<noteq> 0)) \<and>
   (\<exists>ds. duties (trace (snd (handle_fan_speed default_args 3 (Some 60000) True
                (initial_state\<lparr>REMAIN_ACTIVATED := 1\<rparr>))))
            = duties (trace (initial_state\<lparr>REMAIN_ACTIVATED := 1\<rparr>)) @ ds
        \<and> duties (trace (snd (handle_fan_speed default_args 4 (Some 60000) False
                \<lparr> REMAIN_ACTIVATED = 1, trace = [Sleep 10] \<rparr>)))
            = duties (trace \<lparr> REMAIN_ACTIVATED = 1, trace = [Sleep 10] \<rparr>) @ ds) \<and>
   fst (handle_fan_speed default_args 3 (Some 40000) True (initial_state\<lparr>REMAIN_ACTIVATED := 1\<rparr>))
     = fst (handle_fan_speed default_args 4 (Some 40000) True
              \<lparr> REMAIN_ACTIVATED = 1, trace = [Sleep 10] \<rparr>) \<and>
   REMAIN_ACTIVATED (snd (handle_fan_speed default_args 3 (Some 40000) True
       (initial_state\<lparr>REMAIN_ACTIVATED := 1\<rparr>)))
     = REMAIN_ACTIVATED (snd (handle_fan_speed default_args 4 (Some 40000) True
         \<lparr> REMAIN_ACTIVATED = 1, trace = [Sleep 10] \<rparr>))"
proof -
  let ?s = "initial_state\<lparr>REMAIN_ACTIVATED := 1\<rparr>"
  let ?s' = "\<lparr> REMAIN_ACTIVATED = 1, trace = [Sleep 10] \<rparr>"
  have h: "(REMAIN_ACTIVATED ?s \<noteq> 0) = (REMAIN_ACTIVATED ?s' \<noteq> 0)"
    by simp
  have same: "True = True" by simp
  note at60 = tick_determined_by_temperature_latch_config [OF h, where a = default_args and fan = 3 and fan' = 4
      and v = 60000 and ok = True and ok' = False]
  note at40 = tick_determined_by_temperature_latch_config [OF h, where a = default_args and fan = 3 and fan' = 4
      and v = 40000 and ok = True and ok' = True]
  from at60 have d: "\<exists>ds. duties (trace (snd (handle_fan_speed default_args 3 (Some 60000) True ?s)))
            = duties (trace ?s) @ ds
        \<and> duties (trace (snd (handle_fan_speed default_args 4 (Some 60000) False ?s')))
            = duties (trace ?s') @ ds"
    by (rule conjunct1)
  from at40 have "True = True \<longrightarrow>
      fst (handle_fan_speed default_args 3 (Some 40000) True ?s)
        = fst (handle_fan_speed default_args 4 (Some 40000) True ?s')
      \<and> REMAIN_ACTIVATED (snd (handle_fan_speed default_args 3 (Some 40000) True ?s))
        = REMAIN_ACTIVATED (snd (handle_fan_speed default_args 4 (Some 40000) True ?s'))"
    by - (elim conjE, assumption)
  from this same have l: "fst (handle_fan_speed default_args 3 (Some 40000) True ?s)
        = fst (handle_fan_speed default_args 4 (Some 40000) True ?s')
      \<and> REMAIN_ACTIVATED (snd (handle_fan_speed default_args 3 (Some 40000) True ?s))
        = REMAIN_ACTIVATED (snd (handle_fan_speed default_args 4 (Some 40000) True ?s'))"
    by (rule mp)
  from h d l show ?thesis by - (intro conjI, (assumption | erule conjunct1 | erule conjunct2)+)
qed

text \<open>
  Claim C9 as stated fails for the latch: at the default configuration, with the latch
  engaged and 45 degrees, two evaluations with the same temperature, latch and
  configuration leave the latch at 0 when the PWM write succeeds and at 1 when it
  raises.
\<close>

theorem latch_output_differs_with_write_outcome:
  "valid_config default_args \<and>
   REMAIN_ACTIVATED (snd (handle_fan_speed default_args 3 (Some 45000) True
       (initial_state\<lparr>REMAIN_ACTIVATED := 1\<rparr>))) = 0 \<and>
   REMAIN_ACTIVATED (snd (handle_fan_speed default_args 3 (Some 45000) False
       (initial_state\<lparr>REMAIN_ACTIVATED := 1\<rparr>))) = 1"
  by (simp add: handle_fan_speed_def get_cpu_temperature_def set_fan_speed_def emit_def
      valid_config_def default_args_def initial_state_def DEFAULTS Let_def)

subsection \<open>Saturation\<close>

text \<open>
  Claim C10. For a valid configuration, a tick at a temperature above \<open>max_temp\<close>
  commands a duty cycle of 100, whatever \<open>fan_high\<close> is, and leaves the latch engaged.
  So for every configuration with \<open>fan_high < 100\<close> (valid or not) there is a
  temperature at which the duty cycle commanded exceeds \<open>fan_high\<close>.
\<close>

theorem saturation_duty:
  "(valid_config a \<longrightarrow> real_of_int (max_temp a) < v / 1000 \<longrightarrow>
      duties (trace (snd (handle_fan_speed a fan (Some v) ok s))) = duties (trace s) @ [100]
      \<and> REMAIN_ACTIVATED (snd (handle_fan_speed a fan (Some v) ok s)) = 1)
   \<and> (fan_high a < 100 \<longrightarrow>
        (\<exists>w d. real_of_int (max_temp a) < w / 1000 \<and>
           duties (trace (snd (handle_fan_speed a fan (Some w) ok s))) = duties (trace s) @ [d]
           \<and> real_of_int (fan_high a) < d))"
proof (intro conjI impI)
  assume v: "valid_config a" and hot: "real_of_int (max_temp a) < v / 1000"
  note ord = valid_config_order [OF v]
  have c: "real_of_int (min_cool_temp a) \<le> v / 1000" "real_of_int (min_temp a) \<le> v / 1000"
    using ord hot by linarith+
  show "duties (trace (snd (handle_fan_speed a fan (Some v) ok s))) = duties (trace s) @ [100]"
    by (simp add: tick_max [OF c hot] set_fan_speed_duties DEFAULT_FAN_MAX_def)
  show "REMAIN_ACTIVATED (snd (handle_fan_speed a fan (Some v) ok s)) = 1"
    by (simp add: tick_max [OF c hot] set_fan_speed_latch)
next
  assume h: "fan_high a < 100"
  let ?m = "max (max_temp a) (max (min_temp a) (min_cool_temp a)) + 1"
  let ?w = "real_of_int ?m * 1000"
  have w: "?w / 1000 = real_of_int ?m" by simp
  have c: "real_of_int (min_cool_temp a) \<le> ?w / 1000" "real_of_int (min_temp a) \<le> ?w / 1000"
    "real_of_int (max_temp a) < ?w / 1000"
    unfolding w by simp_all
  have "duties (trace (snd (handle_fan_speed a fan (Some ?w) ok s))) = duties (trace s) @ [100]"
    by (simp only: tick_max [OF c] set_fan_speed_duties DEFAULT_FAN_MAX_def) simp
  moreover have "real_of_int (fan_high a) < 100" using h by simp
  ultimately show "\<exists>w d. real_of_int (max_temp a) < w / 1000 \<and>
           duties (trace (snd (handle_fan_speed a fan (Some w) ok s))) = duties (trace s) @ [d]
           \<and> real_of_int (fan_high a) < d"
    using c(3) by blast
qed

text \<open>With \<open>fan_high = 80\<close>: 80 degrees commands 100.\<close>

theorem saturation_duty_witness:
  "valid_config (default_args\<lparr>fan_high := 80\<rparr>) \<and>
   real_of_int (max_temp (default_args\<lparr>fan_high := 80\<rparr>)) < 80000 / 1000 \<and>
   fan_high (default_args\<lparr>fan_high := 80\<rparr>) < 100 \<and>
   duties (trace (snd (handle_fan_speed (default_args\<lparr>fan_high := 80\<rparr>) 3 (Some 80000) True
       (initial_state\<lparr>REMAIN_ACTIVATED := 1\<rparr>)))) = [100]"
proof -
  have v: "valid_config (default_args\<lparr>fan_high := 80\<rparr>)"
    by (simp add: valid_config_def default_args_def DEFAULTS)
  have hot: "real_of_int (max_temp (default_args\<lparr>fan_high := 80\<rparr>)) < 80000 / 1000"
    by (simp add: default_args_def DEFAULTS)
  have h: "fan_high (default_args\<lparr>fan_high := 80\<rparr>) < 100" by simp
  show ?thesis
    using v hot h
      saturation_duty [of "default_args\<lparr>fan_high := 80\<rparr>" 80000 3 True "initial_state\<lparr>REMAIN_ACTIVATED := 1\<rparr>"]
    by (simp add: initial_state_def)
qed

subsection \<open>The loop, its exits and \<open>shutdown\<close>\<close>

text \<open>Ticks that complete can be run first: the loop goes on with the rest.\<close>

lemma while_True_append:
  "while_True a fan pre s = (None, s1) \<Longrightarrow>
   while_True a fan (pre @ rest) s = while_True a fan rest s1"
proof (induction pre arbitrary: s)
  case Nil
  then show ?case by simp
next
  case (Cons env pre)
  then show ?case
    by (auto simp add: Let_def split: prod.splits sum.splits if_splits)
qed

text \<open>
  \<open>shutdown\<close> never raises: what its two calls can raise is caught by
  \<open>except Exception\<close>. It always commands \<open>DEFAULT_FAN_LOW\<close> first, and closes the
  chip once exactly when that call succeeded.
\<close>

lemma shutdown_returns: "fst (shutdown a fan p c s) = Inr ()"
  by (simp add: shutdown_def set_fan_speed_def Let_def)

lemma shutdown_trace:
  "\<exists>new. trace (snd (shutdown a fan p c s)) =
     trace s @ TxPwm fan (pwm_gpio a) (pwm_freq a) (real_of_int DEFAULT_FAN_LOW) # new
     \<and> length (filter (\<lambda>e. e = GpiochipClose fan) new) = (if p then 1 else 0)"
  by (simp add: shutdown_def set_fan_speed_def emit_def Let_def)

text \<open>A tick whose sensor read or PWM write fails raises, and the exception is an \<open>Exception\<close>.\<close>

lemma tick_fails:
  assumes "content = None \<or> \<not> ok"
  shows "\<exists>e s'. handle_fan_speed a fan content ok s = (Inl e, s') \<and> is_Exception e"
proof (cases content)
  case None
  then show ?thesis by (simp add: tick_sensor_fails)
next
  case (Some v)
  with assms have "\<not> ok" by simp
  with Some show ?thesis
    by (auto simp add: handle_fan_speed_def get_cpu_temperature_def set_fan_speed_def Let_def)
qed

lemma tick_write_fails:
  assumes "max_temp a \<noteq> min_temp a"
  shows "\<exists>s' d. handle_fan_speed a fan (Some v) False s = (Inl LgpioError, s')
           \<and> duties (trace s') = duties (trace s) @ [d]"
  using assms
  by (auto simp add: handle_fan_speed_def get_cpu_temperature_def set_fan_speed_def emit_def
      duties_append Let_def)

text \<open>
  Every exit of the loop runs \<open>shutdown\<close> once, on the state the handler leaves: after
  an error \<open>main\<close> raises \<open>SystemExit(1)\<close>, after \<open>KeyboardInterrupt\<close> it returns.
\<close>

lemma main_after_error:
  assumes "main_try a menv s = (Some e, Some fan, s2)" "is_Exception e"
  shows "main a menv s =
    (Some (Inl (SystemExit 1)),
     snd (shutdown a fan (shutdown_pwm_ok menv) (shutdown_close_ok menv)
            (emit (Logging CRITICAL (CriticalErrorOccurred e)) s2)))"
proof -
  have ne: "e \<noteq> KeyboardInterrupt" using assms(2) by auto
  obtain r s3 where sh: "shutdown a fan (shutdown_pwm_ok menv) (shutdown_close_ok menv)
            (emit (Logging CRITICAL (CriticalErrorOccurred e)) s2) = (r, s3)"
    by (cases "shutdown a fan (shutdown_pwm_ok menv) (shutdown_close_ok menv)
            (emit (Logging CRITICAL (CriticalErrorOccurred e)) s2)")
  have "r = Inr ()" using shutdown_returns [of a fan "shutdown_pwm_ok menv" "shutdown_close_ok menv"
     "emit (Logging CRITICAL (CriticalErrorOccurred e)) s2"] sh by simp
  then show ?thesis using assms ne sh by (simp add: main_def)
qed

lemma main_after_interrupt:
  assumes "main_try a menv s = (Some KeyboardInterrupt, Some fan, s2)"
  shows "main a menv s =
    (Some (Inr ()),
     snd (shutdown a fan (shutdown_pwm_ok menv) (shutdown_close_ok menv)
            (emit (Logging INFO KeyboardInterruptReceived) s2)))"
proof -
  obtain r s3 where sh: "shutdown a fan (shutdown_pwm_ok menv) (shutdown_close_ok menv)
            (emit (Logging INFO KeyboardInterruptReceived) s2) = (r, s3)"
    by (cases "shutdown a fan (shutdown_pwm_ok menv) (shutdown_close_ok menv)
            (emit (Logging INFO KeyboardInterruptReceived) s2)")
  have "r = Inr ()"
    using shutdown_returns [of a fan "shutdown_pwm_ok menv" "shutdown_close_ok menv"
     "emit (Logging INFO KeyboardInterruptReceived) s2"] sh by simp
  then show ?thesis using assms sh by (simp add: main_def)
qed

subsection \<open>I/O errors are fatal\<close>

text \<open>
  Claim C7. Let \<open>main\<close> have started (the chip is open, the pin claimed, the fan
  primed) and let the ticks \<open>pre\<close> complete, leaving the state \<open>s1\<close>. If in the next
  tick the temperature read or the PWM write raises, then the tick raises that error
  (\<open>IOError\<close> without a PWM call for the read, \<open>lgpio.error\<close> after a single PWM call
  for the write): there is no retry. The loop ends there whatever answers \<open>rest\<close>
  holds, so no further tick occurs. \<open>main\<close> logs the error as critical, runs
  \<open>shutdown\<close>, which returns, and raises \<open>SystemExit(1)\<close>.
\<close>

theorem io_error_is_fatal:
  assumes "opened menv = Some fan" and "claim_ok menv" and "prime_ok menv"
    and "ticks menv = pre @ env # rest"
    and "while_True a fan pre (entering_loop a fan s) = (None, s1)"
    and "sensor env = None \<or> \<not> pwm_ok env"
  shows "\<exists>e s2. handle_fan_speed a fan (sensor env) (pwm_ok env) s1 = (Inl e, s2)
      \<and> is_Exception e
      \<and> (sensor env = None \<longrightarrow>
            e = IOError \<and> s2 = emit (Logging ERROR FailedToReadTemperature) s1)
      \<and> (sensor env \<noteq> None \<and> max_temp a \<noteq> min_temp a \<longrightarrow>
            e = LgpioError \<and> (\<exists>d. duties (trace s2) = duties (trace s1) @ [d]))
      \<and> while_True a fan (env # rest) s1 = (Some e, s2)
      \<and> main a menv s =
          (Some (Inl (SystemExit 1)),
           snd (shutdown a fan (shutdown_pwm_ok menv) (shutdown_close_ok menv)
                  (emit (Logging CRITICAL (CriticalErrorOccurred e)) s2)))
      \<and> fst (shutdown a fan (shutdown_pwm_ok menv) (shutdown_close_ok menv)
                  (emit (Logging CRITICAL (CriticalErrorOccurred e)) s2)) = Inr ()"
proof -
  from tick_fails [OF assms(6)] obtain e s2
    where tick: "handle_fan_speed a fan (sensor env) (pwm_ok env) s1 = (Inl e, s2)"
      and exc: "is_Exception e"
    by blast
  have on_read: "sensor env = None \<longrightarrow>
      e = IOError \<and> s2 = emit (Logging ERROR FailedToReadTemperature) s1"
    using tick by (auto simp add: tick_sensor_fails)
  have on_write: "sensor env \<noteq> None \<and> max_temp a \<noteq> min_temp a \<longrightarrow>
      e = LgpioError \<and> (\<exists>d. duties (trace s2) = duties (trace s1) @ [d])"
  proof
    assume h: "sensor env \<noteq> None \<and> max_temp a \<noteq> min_temp a"
    then obtain v where v: "sensor env = Some v" by auto
    with assms(6) have nok: "\<not> pwm_ok env" by simp
    from tick_write_fails [of a fan v s1] h obtain s' d
      where "handle_fan_speed a fan (Some v) False s1 = (Inl LgpioError, s')"
        "duties (trace s') = duties (trace s1) @ [d]"
      by blast
    with tick v nok show "e = LgpioError \<and> (\<exists>d. duties (trace s2) = duties (trace s1) @ [d])"
      by auto
  qed
  have loop: "while_True a fan (env # rest) s1 = (Some e, s2)"
    using tick by simp
  have all: "while_True a fan (ticks menv) (entering_loop a fan s) = (Some e, s2)"
    using while_True_append [OF assms(5), of "env # rest"] loop assms(4) by simp
  have body: "main_try a menv s = (Some e, Some fan, s2)"
    using assms(1,2,3) all
    by (simp add: main_try_def entering_loop_def set_fan_speed_def Let_def)
  have quiet: "fst (shutdown a fan (shutdown_pwm_ok menv) (shutdown_close_ok menv)
                  (emit (Logging CRITICAL (CriticalErrorOccurred e)) s2)) = Inr ()"
    by (rule shutdown_returns)
  show ?thesis
    using tick exc on_read on_write loop main_after_error [OF body exc] quiet
    by - (rule exI [of _ e], rule exI [of _ s2], intro conjI, assumption+)
qed

text \<open>
  The run \<open>failing_run\<close> from the initial state: the second tick cannot read the
  sensor, the third never happens, and the trace ends with the shutdown sequence.
\<close>

theorem io_error_is_fatal_witness:
  "opened failing_run = Some 3 \<and> claim_ok failing_run \<and> prime_ok failing_run \<and>
   ticks failing_run = [\<lparr> sensor = Some 40000, pwm_ok = True, interrupted = False \<rparr>]
      @ \<lparr> sensor = None, pwm_ok = True, interrupted = False \<rparr>
      # [\<lparr> sensor = Some 60000, pwm_ok = True, interrupted = False \<rparr>] \<and>
   main default_args failing_run initial_state =
     (Some (Inl (SystemExit 1)),
      \<lparr> REMAIN_ACTIVATED = 0,
        trace = [GpiochipOpen 0, GpioClaimOutput 3 14, TxPwm 3 14 10000 50,
                 Logging INFO (FanSpeed 50 55), TxPwm 3 14 10000 0,
                 Logging INFO (FanSpeed 0 40), Sleep 10,
                 Logging ERROR FailedToReadTemperature,
                 Logging CRITICAL (CriticalErrorOccurred IOError),
                 TxPwm 3 14 10000 50, Logging INFO (FanSpeed 50 55), GpiochipClose 3,
                 Logging INFO ShutdownComplete] \<rparr>)"
proof -
  let ?ok = "\<lparr> sensor = Some 40000, pwm_ok = True, interrupted = False \<rparr>"
  let ?bad = "\<lparr> sensor = None, pwm_ok = True, interrupted = False \<rparr>"
  let ?later = "\<lparr> sensor = Some 60000, pwm_ok = True, interrupted = False \<rparr>"
  let ?s1 = "\<lparr> REMAIN_ACTIVATED = 0,
        trace = [GpiochipOpen 0, GpioClaimOutput 3 14, TxPwm 3 14 10000 50,
                 Logging INFO (FanSpeed 50 55), TxPwm 3 14 10000 0,
                 Logging INFO (FanSpeed 0 40), Sleep 10] \<rparr>"
  have h1: "opened failing_run = Some 3" by (simp add: failing_run_def)
  have h2: "claim_ok failing_run" by (simp add: failing_run_def)
  have h3: "prime_ok failing_run" by (simp add: failing_run_def)
  have h4: "ticks failing_run = [?ok] @ ?bad # [?later]" by (simp add: failing_run_def)
  have h5: "while_True default_args 3 [?ok] (entering_loop default_args 3 initial_state)
      = (None, ?s1)"
    by (simp add: entering_loop_def handle_fan_speed_def get_cpu_temperature_def
        set_fan_speed_def emit_def default_args_def initial_state_def DEFAULTS Let_def)
  have h6: "sensor ?bad = None \<or> \<not> pwm_ok ?bad" by simp
  from io_error_is_fatal [OF h1 h2 h3 h4 h5 h6]
  obtain e s2 where
    r: "sensor ?bad = None \<longrightarrow> e = IOError \<and> s2 = emit (Logging ERROR FailedToReadTemperature) ?s1"
    and m: "main default_args failing_run initial_state =
          (Some (Inl (SystemExit 1)),
           snd (shutdown default_args 3 (shutdown_pwm_ok failing_run) (shutdown_close_ok failing_run)
                  (emit (Logging CRITICAL (CriticalErrorOccurred e)) s2)))"
    by - (elim exE conjE, rule that, assumption+)
  from r have e: "e = IOError"
    and s2: "s2 = emit (Logging ERROR FailedToReadTemperature) ?s1"
    by simp_all
  have "main default_args failing_run initial_state =
          (Some (Inl (SystemExit 1)),
           snd (shutdown default_args 3 True True
                  (emit (Logging CRITICAL (CriticalErrorOccurred IOError))
                     (emit (Logging ERROR FailedToReadTemperature) ?s1))))"
    using m unfolding e s2 by (simp add: failing_run_def)
  then have "main default_args failing_run initial_state =
     (Some (Inl (SystemExit 1)),
      \<lparr> REMAIN_ACTIVATED = 0,
        trace = [GpiochipOpen 0, GpioClaimOutput 3 14, TxPwm 3 14 10000 50,
                 Logging INFO (FanSpeed 50 55), TxPwm 3 14 10000 0,
                 Logging INFO (FanSpeed 0 40), Sleep 10,
                 Logging ERROR FailedToReadTemperature,
                 Logging CRITICAL (CriticalErrorOccurred IOError),
                 TxPwm 3 14 10000 50, Logging INFO (FanSpeed 50 55), GpiochipClose 3,
                 Logging INFO ShutdownComplete] \<rparr>)"
    by (simp add: shutdown_def set_fan_speed_def emit_def default_args_def DEFAULTS Let_def)
  then show ?thesis using h1 h2 h3 h4 by simp
qed

subsection \<open>Shutdown\<close>

text \<open>
  Claim C6 says that \<open>shutdown\<close> sets the duty cycle to the configured \<open>fan_low\<close> and
  then releases the PWM resource. The code commands the constant \<open>DEFAULT_FAN_LOW\<close>:
  with \<open>fan_low = 30\<close> and every other option at its default, \<open>shutdown\<close> commands a
  duty cycle of 50, not 30, then closes the chip.
\<close>

theorem shutdown_commands_DEFAULT_FAN_LOW:
  "shutdown (default_args\<lparr>fan_low := 30\<rparr>) 3 True True initial_state
     = (Inr (), \<lparr> REMAIN_ACTIVATED = 0,
                  trace = [TxPwm 3 14 10000 50, Logging INFO (FanSpeed 50 55),
                           GpiochipClose 3, Logging INFO ShutdownComplete] \<rparr>)"
  by (simp add: shutdown_def set_fan_speed_def emit_def
      default_args_def initial_state_def DEFAULTS Let_def)

end
